theory Spec2Isabelle
  imports Complex_Main "HOL-Library.Multiset" "HOL-Library.Product_Lexorder"
begin

section \<open>Values, errors and the date library\<close>

text \<open>
  A cell of the voter file is a string or null (Python \<open>None\<close>). The literal string
  \<open>'null'\<close> is the sentinel the code treats like a missing value.
\<close>

type_synonym cell = "string option"

text \<open>
  Exceptions are values. \<open>ValueError\<close> and \<open>RuntimeError\<close> carry the message the code
  builds; \<open>LibValueError\<close> is the \<open>ValueError\<close> that \<open>strptime\<close> raises itself (its
  message is the library's). \<open>UnboundLocalError\<close> carries the name of the local variable
  that was read before any assignment; \<open>AnalysisException\<close> is the engine's error
  for a column that does not exist, \<open>ParseException\<close> its error for a query that is not SQL.
\<close>

datatype py_error =
    KeyError
  | TypeError
  | ValueError string
  | LibValueError
  | RuntimeError string
  | UnboundLocalError string
  | IndexError
  | AnalysisException
  | ParseException

text \<open>
  A value of the user-supplied configuration: \<open>None\<close>, a string, an integer, a list
  or a dictionary (an association list with distinct keys, in iteration order).
\<close>

datatype pyval =
    PNone
  | PStr string
  | PInt int
  | PList "pyval list"
  | PDict "(string \<times> pyval) list"

text \<open>
  The functions of Python's \<open>datetime\<close> module that the code calls are parameters of the
  model. \<open>'t\<close> is the type of \<open>datetime\<close> objects; the code only compares them, so any
  linear order will do. A \<open>date\<close> is identified with the \<open>datetime\<close> at its midnight.
  \<^item> \<open>strptime lib s fmt\<close> is \<open>datetime.datetime.strptime(s, fmt)\<close>, \<open>None\<close> when it raises
    \<open>ValueError\<close>;
  \<^item> \<open>strftime lib t fmt\<close> is \<open>t.strftime(fmt)\<close>, for a year the library formats
    (Python 2 refuses years before 1900);
  \<^item> \<open>today lib\<close> is \<open>datetime.date.today()\<close>, one value for the whole run;
  \<^item> \<open>str_date lib t\<close> is \<open>str(t)\<close> for a \<open>date\<close> object \<open>t\<close>;
  \<^item> \<open>year lib t\<close> is \<open>t.year\<close>;
  \<^item> \<open>str_obj lib v\<close> is \<open>str(v)\<close> for a configuration value \<open>v\<close> that is not a string.
\<close>

record 't pylib =
  strptime :: "string \<Rightarrow> string \<Rightarrow> 't option"
  strftime :: "'t \<Rightarrow> string \<Rightarrow> string"
  today :: 't
  str_date :: "'t \<Rightarrow> string"
  year :: "'t \<Rightarrow> int"
  str_obj :: "pyval \<Rightarrow> string"

definition VHIST_DATE_FORMAT :: string where
  "VHIST_DATE_FORMAT = ''%m-%d-%Y''"

text \<open>The test \<open>x in (None, 'null')\<close>.\<close>

definition is_null :: "cell \<Rightarrow> bool" where
  "is_null x = (x = None \<or> x = Some ''null'')"

text \<open>\<open>str(x)\<close> for a cell: \<open>str(None)\<close> is \<open>'None'\<close>, a string is itself.\<close>

definition py_str :: "cell \<Rightarrow> string" where
  "py_str x = (case x of None \<Rightarrow> ''None'' | Some s \<Rightarrow> s)"

section \<open>The vote record cleaner\<close>

text \<open>
  \<open>clean_voting_record\<close>, the UDF registered by \<open>_register_clean_voting_records\<close>.
  \<open>reg_date_format\<close> and \<open>voted_values\<close> are the two values it closes over. The election
  date is parsed outside the \<open>try\<close>, so a failure there propagates; the two registration
  dates are parsed inside it, so a failure there returns \<open>None\<close>. A null stated
  registration date is replaced by \<open>date.today()\<close>, and what is then parsed is \<open>str\<close> of
  that date.
\<close>

definition stated_reg_string :: "'t pylib \<Rightarrow> cell \<Rightarrow> string" where
  "stated_reg_string lib reg_date =
     (if is_null reg_date then str_date lib (today lib) else py_str reg_date)"

definition clean_voting_record ::
  "('t::linorder) pylib \<Rightarrow> string \<Rightarrow> cell list \<Rightarrow> cell \<Rightarrow> cell \<Rightarrow> cell \<Rightarrow> string
     \<Rightarrow> py_error + int option" where
  "clean_voting_record lib reg_date_format voted_values vote eff_reg_date reg_date elections_date =
     (case strptime lib elections_date VHIST_DATE_FORMAT of
        None \<Rightarrow> Inl LibValueError
      | Some elections_dt \<Rightarrow>
          (case strptime lib (stated_reg_string lib reg_date) reg_date_format of
             None \<Rightarrow> Inr None
           | Some reg_dt \<Rightarrow>
               (case strptime lib (py_str eff_reg_date) reg_date_format of
                  None \<Rightarrow> Inr None
                | Some eff_dt \<Rightarrow>
                    (let reg_dt' = (if eff_dt < reg_dt then eff_dt else reg_dt)
                     in if reg_dt' \<le> elections_dt
                        then (if vote \<in> set voted_values then Inr (Some 1) else Inr (Some 0))
                        else Inr None))))"

section \<open>Configuration validation (\<open>turnout_config.py\<close>)\<close>

definition REQUIRED_FIELDS_IN_CONFIG :: "(string \<times> string list) list" where
  "REQUIRED_FIELDS_IN_CONFIG =
     [(''voter_file'', [''bucket'', ''key_pattern'']),
      (''column_names'', [''dob_field'', ''id_field'', ''party_field'', ''reg_date_field'']),
      (''formats'', [''reg_date'', ''dob''])]"

definition VOTED_VALUES :: string where
  "VOTED_VALUES = ''voted_values''"

definition VOTE_HISTORIES :: string where
  "VOTE_HISTORIES = ''vote_histories''"

definition ELEMENTS_REQ_IN_VALUES_VF :: "string list" where
  "ELEMENTS_REQ_IN_VALUES_VF = [VOTED_VALUES, ''parties_included'']"

definition SET_REQ_FIELDS :: "string set" where
  "SET_REQ_FIELDS = set (map fst REQUIRED_FIELDS_IN_CONFIG @ [VOTE_HISTORIES, VOTED_VALUES])"

text \<open>\<open>str(v)\<close> for a configuration value.\<close>

definition str_val :: "'t pylib \<Rightarrow> pyval \<Rightarrow> string" where
  "str_val lib v = (case v of PStr s \<Rightarrow> s | _ \<Rightarrow> str_obj lib v)"

text \<open>
  The loop over \<open>REQUIRED_FIELDS_IN_CONFIG\<close>: each required group must be a dictionary
  with exactly its required sub-keys. (The iteration order of that dictionary only
  decides which of several violations is reported.)
\<close>

fun check_required_fields ::
  "(string \<times> string list) list \<Rightarrow> (string \<times> pyval) list \<Rightarrow> py_error option" where
  "check_required_fields [] config = None"
| "check_required_fields ((req_field, vlues) # rest) config =
     (case map_of config req_field of
        None \<Rightarrow> Some KeyError
      | Some (PDict sub) \<Rightarrow>
          (if set (map fst sub) \<noteq> set vlues then Some KeyError
           else check_required_fields rest config)
      | Some _ \<Rightarrow> Some TypeError)"

text \<open>
  Everything \<open>_validated_config\<close> checks before it looks at the election dates:
  the required top-level keys, the required groups, and that \<open>vote_histories\<close> is a
  dictionary.
\<close>

definition shape_checks :: "(string \<times> pyval) list \<Rightarrow> py_error option" where
  "shape_checks config =
     (if SET_REQ_FIELDS \<inter> set (map fst config) \<noteq> SET_REQ_FIELDS then Some KeyError
      else (case check_required_fields REQUIRED_FIELDS_IN_CONFIG config of
              Some e \<Rightarrow> Some e
            | None \<Rightarrow>
                (case map_of config VOTE_HISTORIES of
                   None \<Rightarrow> Some KeyError
                 | Some (PDict vh) \<Rightarrow> None
                 | Some _ \<Rightarrow> Some TypeError)))"

text \<open>The message of the format error, with the line break of the source's literal.\<close>

definition date_format_msg :: "string \<Rightarrow> string" where
  "date_format_msg elec =
     ''date format for '' @ elec @ '' in voter_history is not in required'' @ [CHR 0x0A]
       @ replicate 29 (CHR '' '') @ ''format: '' @ VHIST_DATE_FORMAT @ ''.''"

text \<open>The loop over the elections: the first date that does not parse raises.\<close>

fun check_vote_histories :: "'t pylib \<Rightarrow> (string \<times> pyval) list \<Rightarrow> py_error option" where
  "check_vote_histories lib [] = None"
| "check_vote_histories lib ((elec, elecdate) # rest) =
     (case strptime lib (str_val lib elecdate) VHIST_DATE_FORMAT of
        None \<Rightarrow> Some (ValueError (date_format_msg elec))
      | Some t \<Rightarrow> check_vote_histories lib rest)"

text \<open>The loop over \<open>ELEMENTS_REQ_IN_VALUES_VF\<close>: a value that is present must be a list.\<close>

fun check_list_fields :: "string list \<Rightarrow> (string \<times> pyval) list \<Rightarrow> py_error option" where
  "check_list_fields [] config = None"
| "check_list_fields (elms_req # rest) config =
     (case map_of config elms_req of
        None \<Rightarrow> check_list_fields rest config
      | Some PNone \<Rightarrow> check_list_fields rest config
      | Some (PList xs) \<Rightarrow> check_list_fields rest config
      | Some _ \<Rightarrow> Some TypeError)"

definition validated_config :: "'t pylib \<Rightarrow> (string \<times> pyval) list \<Rightarrow> py_error + unit" where
  "validated_config lib config =
     (case shape_checks config of
        Some e \<Rightarrow> Inl e
      | None \<Rightarrow>
          (case map_of config VOTE_HISTORIES of
             Some (PDict vh) \<Rightarrow>
               (case check_vote_histories lib vh of
                  Some e \<Rightarrow> Inl e
                | None \<Rightarrow>
                    (case check_list_fields ELEMENTS_REQ_IN_VALUES_VF config of
                       Some e \<Rightarrow> Inl e
                     | None \<Rightarrow> Inr ()))
           | _ \<Rightarrow> Inl TypeError))"

text \<open>
  \<open>TurnoutConfig.__init__\<close>: validation, then the attribute \<open>voted_values\<close> is read from
  the dictionary. The object is the configuration together with that attribute.
\<close>

definition TurnoutConfig ::
  "'t pylib \<Rightarrow> (string \<times> pyval) list \<Rightarrow> py_error + ((string \<times> pyval) list \<times> pyval)" where
  "TurnoutConfig lib config =
     (case validated_config lib config of
        Inl e \<Rightarrow> Inl e
      | Inr u \<Rightarrow>
          (case map_of config VOTED_VALUES of
             None \<Rightarrow> Inl KeyError
           | Some v \<Rightarrow> Inr (config, v)))"

section \<open>The scorer's view of the configuration and of the voter file\<close>

text \<open>
  The scorer reads a validated configuration through the properties of \<open>TurnoutConfig\<close>:
  the four column names, the two date formats, the elections with their dates (a
  dictionary, in iteration order), the voted values and \<open>config.get('parties_included')\<close>.
\<close>

record scorer_config =
  dob_field :: string
  id_field :: string
  party_field :: string
  reg_date_field :: string
  formats_reg_date :: string
  formats_dob :: string
  vote_histories :: "(string \<times> string) list"
  voted_values :: "cell list"
  config_parties_included :: "string list option"

text \<open>
  The property \<open>parties_included\<close>: an absent or empty list switches party filtering off
  (with a warning) and the property is \<open>None\<close>.
\<close>

definition parties_included :: "scorer_config \<Rightarrow> string list option" where
  "parties_included cfg =
     (case config_parties_included cfg of
        None \<Rightarrow> None
      | Some ps \<Rightarrow> (if length ps = 0 then None else Some ps))"

definition columns_to_keep :: "scorer_config \<Rightarrow> string list" where
  "columns_to_keep cfg =
     [dob_field cfg, id_field cfg, party_field cfg, reg_date_field cfg]
       @ map fst (vote_histories cfg)"

text \<open>
  A data frame: the column names and the rows, each row holding one cell per column.
  \<open>lookup_cell\<close> reads the cell of a row under a column name (null when the row is too
  short to have one, as the CSV reader fills it).
\<close>

record dataframe =
  columns :: "string list"
  rows :: "cell list list"

definition lookup_cell :: "string list \<Rightarrow> cell list \<Rightarrow> string \<Rightarrow> cell" where
  "lookup_cell cols r c = (case map_of (zip cols r) c of None \<Rightarrow> None | Some v \<Rightarrow> v)"

text \<open>\<open>df[cols]\<close>: the projection to the named columns.\<close>

definition select_columns :: "dataframe \<Rightarrow> string list \<Rightarrow> dataframe" where
  "select_columns df cols =
     \<lparr> columns = cols, rows = map (\<lambda>r. map (lookup_cell (columns df) r) cols) (rows df) \<rparr>"

text \<open>\<open>df[df[field].isin(values)]\<close>: a null cell is in no list.\<close>

definition filter_isin :: "dataframe \<Rightarrow> string \<Rightarrow> string list \<Rightarrow> dataframe" where
  "filter_isin df field vals =
     df \<lparr> rows := filter (\<lambda>r. case lookup_cell (columns df) r field of
                                  None \<Rightarrow> False
                                | Some p \<Rightarrow> p \<in> set vals) (rows df) \<rparr>"

definition validate_against_voter_file :: "scorer_config \<Rightarrow> dataframe \<Rightarrow> py_error + unit" where
  "validate_against_voter_file cfg voter_history_df =
     (if list_all (\<lambda>clm_name. clm_name \<in> set (columns voter_history_df))
           (map fst (vote_histories cfg)) \<and>
         list_all (\<lambda>req_clm_name. req_clm_name \<in> set (columns voter_history_df))
           [dob_field cfg, id_field cfg, party_field cfg, reg_date_field cfg]
      then Inr () else Inl KeyError)"

section \<open>Preprocessing (\<open>_preprocess_vf\<close>)\<close>

text \<open>\<open>str\<close> of an integer.\<close>

definition digit_char :: "nat \<Rightarrow> char" where
  "digit_char n = char_of (48 + n mod 10)"

fun digits :: "nat \<Rightarrow> string" where
  "digits n = (if n < 10 then [digit_char n] else digits (n div 10) @ [digit_char n])"

declare digits.simps [simp del]

definition str_int :: "int \<Rightarrow> string" where
  "str_int i = (if i < 0 then CHR ''-'' # digits (nat (- i)) else digits (nat i))"

definition get_year_ob :: "'t pylib \<Rightarrow> string \<Rightarrow> cell \<Rightarrow> py_error + string" where
  "get_year_ob lib dob_format date_input =
     (case date_input of
        None \<Rightarrow> Inr (str_int (year lib (today lib) - 18))
      | Some s \<Rightarrow>
          (if s = ''null'' then Inr (str_int (year lib (today lib) - 18))
           else (case strptime lib s dob_format of
                   None \<Rightarrow> Inl LibValueError
                 | Some t \<Rightarrow> Inr (str_int (year lib t)))))"

text \<open>
  The table the two checks look at: the projection to the required columns, filtered by
  party when \<open>parties_included\<close> is not \<open>None\<close>.
\<close>

definition projected_table :: "scorer_config \<Rightarrow> dataframe \<Rightarrow> dataframe" where
  "projected_table cfg voter_history_df =
     (let vdf = select_columns voter_history_df (columns_to_keep cfg)
      in case parties_included cfg of
           None \<Rightarrow> vdf
         | Some parties_to_include \<Rightarrow> filter_isin vdf (party_field cfg) parties_to_include)"

text \<open>\<open>','.join(xs)\<close>.\<close>

fun join_comma :: "string list \<Rightarrow> string" where
  "join_comma [] = []"
| "join_comma [x] = x"
| "join_comma (x # y # ys) = x @ '','' @ join_comma (y # ys)"

definition invalid_party_msg :: "string list \<Rightarrow> string \<Rightarrow> string" where
  "invalid_party_msg parties_to_include field =
     join_comma parties_to_include @ '' not valid party value(s)'' @ [CHR 0x0A]
       @ replicate 29 (CHR '' '') @ ''in '' @ field"

definition duplicates_msg :: string where
  "duplicates_msg = ''There are duplicates in the voterfile. Please fix and rerun''"

text \<open>
  \<open>_preprocess_vf\<close> on the loaded voter file. The locals \<open>parties_to_include\<close> and
  \<open>party_field\<close> are assigned only inside the party-filter branch, so building the message
  of the zero-row error without that branch fails on the first of them. The result is
  the table together with the new column \<open>year_of_birth\<close>, one UDF result per row.
\<close>

definition preprocess_vf ::
  "'t pylib \<Rightarrow> scorer_config \<Rightarrow> dataframe
     \<Rightarrow> py_error + (dataframe \<times> (py_error + string) list)" where
  "preprocess_vf lib cfg voter_history_df =
     (case validate_against_voter_file cfg voter_history_df of
        Inl e \<Rightarrow> Inl e
      | Inr u \<Rightarrow>
          (let vdf = projected_table cfg voter_history_df;
               count_vdf = length (rows vdf)
           in if count_vdf = 0 then
                (case parties_included cfg of
                   None \<Rightarrow> Inl (UnboundLocalError ''parties_to_include'')
                 | Some parties_to_include \<Rightarrow>
                     Inl (ValueError (invalid_party_msg parties_to_include (party_field cfg))))
              else if length (remdups (rows vdf)) \<noteq> count_vdf then
                Inl (RuntimeError duplicates_msg)
              else
                Inr (vdf, map (\<lambda>r. get_year_ob lib (formats_dob cfg)
                                      (lookup_cell (columns vdf) r (dob_field cfg)))
                              (rows vdf))))"

section \<open>Ordering the elections (\<open>_sort_vote_histories\<close>)\<close>

text \<open>
  The dictionary comprehension parses every election date (a date that does not parse
  raises here), and \<open>sorted(dct, key=dct.get)\<close> orders the election names by their
  dates. Python's sort is stable, like \<open>sort_key\<close>.
\<close>

fun parse_histories :: "'t pylib \<Rightarrow> (string \<times> string) list \<Rightarrow> py_error + (string \<times> 't) list" where
  "parse_histories lib [] = Inr []"
| "parse_histories lib ((key, val) # rest) =
     (case strptime lib val VHIST_DATE_FORMAT of
        None \<Rightarrow> Inl LibValueError
      | Some t \<Rightarrow>
          (case parse_histories lib rest of
             Inl e \<Rightarrow> Inl e
           | Inr dct \<Rightarrow> Inr ((key, t) # dct)))"

definition sort_vote_histories ::
  "('t::linorder) pylib \<Rightarrow> (string \<times> string) list \<Rightarrow> py_error + string list" where
  "sort_vote_histories lib vhs =
     (case parse_histories lib vhs of
        Inl e \<Rightarrow> Inl e
      | Inr dct \<Rightarrow> Inr (map fst (sort_key snd dct)))"


section \<open>The effective registration date (\<open>_add_effective_reg_date\<close>)\<close>

text \<open>
  The loop of \<open>effective_regis_date\<close> over \<open>enumerate(arr_of_elec)\<close>: the first cell that
  is not null stops it with the date of the election at that index of the sorted
  elections; without such a cell the date stays \<open>date.today()\<close>.
\<close>

fun first_election_date ::
  "'t pylib \<Rightarrow> (string \<times> string) list \<Rightarrow> string list \<Rightarrow> nat \<Rightarrow> cell list \<Rightarrow> py_error + 't" where
  "first_election_date lib vhs_w_d svh idx [] = Inr (today lib)"
| "first_election_date lib vhs_w_d svh idx (i # rest) =
     (if \<not> is_null i then
        (if idx < length svh then
           (case map_of vhs_w_d (svh ! idx) of
              None \<Rightarrow> Inl KeyError
            | Some d \<Rightarrow>
                (case strptime lib d VHIST_DATE_FORMAT of
                   None \<Rightarrow> Inl LibValueError
                 | Some t \<Rightarrow> Inr t))
         else Inl IndexError)
      else first_election_date lib vhs_w_d svh (Suc idx) rest)"

definition effective_regis_date ::
  "'t pylib \<Rightarrow> (string \<times> string) list \<Rightarrow> string list \<Rightarrow> string \<Rightarrow> cell list
     \<Rightarrow> py_error + string" where
  "effective_regis_date lib vhs_w_d svh reg_date_format arr_of_elec =
     (case first_election_date lib vhs_w_d svh 0 arr_of_elec of
        Inl e \<Rightarrow> Inl e
      | Inr first \<Rightarrow> Inr (strftime lib first reg_date_format))"

text \<open>Running a list of results: the first error, or all the values.\<close>

fun sequence_err :: "('e + 'a) list \<Rightarrow> 'e + 'a list" where
  "sequence_err [] = Inr []"
| "sequence_err (x # xs) =
     (case x of
        Inl e \<Rightarrow> Inl e
      | Inr v \<Rightarrow> (case sequence_err xs of Inl e \<Rightarrow> Inl e | Inr vs \<Rightarrow> Inr (v # vs)))"

definition bind_err :: "'e + 'a \<Rightarrow> ('a \<Rightarrow> 'e + 'b) \<Rightarrow> 'e + 'b" where
  "bind_err m f = (case m of Inl e \<Rightarrow> Inl e | Inr x \<Rightarrow> f x)"

text \<open>
  The new column \<open>effective_reg_date\<close>: the UDF applied, for every row, to the array of
  the row's vote cells in the order of the sorted elections.
\<close>

definition add_effective_reg_date ::
  "'t pylib \<Rightarrow> scorer_config \<Rightarrow> string list \<Rightarrow> dataframe \<Rightarrow> py_error + string list" where
  "add_effective_reg_date lib cfg svh vdf =
     sequence_err
       (map (\<lambda>r. effective_regis_date lib (vote_histories cfg) svh (formats_reg_date cfg)
                   (map (lookup_cell (columns vdf) r) svh))
            (rows vdf))"

section \<open>Cleaned columns (\<open>_clean_voting_record\<close>)\<close>

text \<open>
  The generated SQL calls the UDF once per row and election, with the row's vote cell
  for the election, its effective and stated registration dates, and the election's
  date as a literal. The result is the new column \<open>{election}_cleaned\<close>. Derived columns
  are kept by name, apart from the columns of the voter file: the names of the voter
  file's columns are taken not to clash with the names of derived columns.
\<close>

definition cleaned_column ::
  "('t::linorder) pylib \<Rightarrow> scorer_config \<Rightarrow> dataframe \<Rightarrow> string list \<Rightarrow> string \<Rightarrow> string
     \<Rightarrow> py_error + int option list" where
  "cleaned_column lib cfg vdf effs election election_date =
     sequence_err
       (map (\<lambda>(r, eff).
               clean_voting_record lib (formats_reg_date cfg) (voted_values cfg)
                 (lookup_cell (columns vdf) r election) (Some eff)
                 (lookup_cell (columns vdf) r (reg_date_field cfg)) election_date)
            (zip (rows vdf) effs))"

fun cleaned_columns ::
  "('t::linorder) pylib \<Rightarrow> scorer_config \<Rightarrow> dataframe \<Rightarrow> string list
     \<Rightarrow> (string \<times> string) list \<Rightarrow> py_error + (string \<times> int option list) list" where
  "cleaned_columns lib cfg vdf effs [] = Inr []"
| "cleaned_columns lib cfg vdf effs ((election, election_date) # rest) =
     (case cleaned_column lib cfg vdf effs election election_date of
        Inl e \<Rightarrow> Inl e
      | Inr c \<Rightarrow>
          (case cleaned_columns lib cfg vdf effs rest of
             Inl e \<Rightarrow> Inl e
           | Inr cs \<Rightarrow> Inr ((election @ ''_cleaned'', c) # cs)))"

section \<open>Turnout weighting (\<open>_add_weighted_vote\<close>)\<close>

text \<open>
  Numbers are exact: Spark's doubles and Python's floats are modelled as reals (the
  narrowing of the raw score to a 32-bit float is modelled, see below).
  \<open>norm_fac\<close> is the query \<open>SUM(c)/COUNT(c) ... WHERE c IS NOT NULL\<close>; over no rows the sum
  is null and so is the quotient, which reaches Python as \<open>None\<close>. Then \<open>1. - None\<close>
  raises \<open>TypeError\<close>. A null cleaned value times the weight is null.
\<close>

definition norm_fac :: "int option list \<Rightarrow> real option" where
  "norm_fac col =
     (let vals = map the (filter (\<lambda>v. v \<noteq> None) col)
      in if vals = [] then None
         else Some (real_of_int (sum_list vals) / real (length vals)))"

definition weighted_column :: "int option list \<Rightarrow> py_error + real option list" where
  "weighted_column col =
     (case norm_fac col of
        None \<Rightarrow> Inl TypeError
      | Some nrm_fac \<Rightarrow> Inr (map (map_option (\<lambda>c. real_of_int c * (1 - nrm_fac))) col))"

text \<open>
  The turnout rate in the specification's words: the number of voters whose cleaned value
  is 1 divided by the number of voters whose cleaned value is not null. It is compared
  with \<open>norm_fac\<close> below.
\<close>

definition turnout_rate :: "int option list \<Rightarrow> real" where
  "turnout_rate col =
     real (length (filter (\<lambda>v. v = Some 1) col)) / real (length (filter (\<lambda>v. v \<noteq> None) col))"

text \<open>\<open>s.split(sep)[0]\<close>: the part of \<open>s\<close> before the first occurrence of \<open>sep\<close>.\<close>

fun split_first :: "string \<Rightarrow> string \<Rightarrow> string" where
  "split_first [] sep = []"
| "split_first (c # cs) sep =
     (if take (length sep) (c # cs) = sep then [] else c # split_first cs sep)"

text \<open>
  The name under which the loop stores the weighted column of a cleaned column:
  \<open>election.split('_cleaned')[0] + '_weighted'\<close>.
\<close>

definition weighted_col_name :: "string \<Rightarrow> string" where
  "weighted_col_name election = split_first election ''_cleaned'' @ ''_weighted''"

text \<open>\<open>df.withColumn(name, col)\<close>: a column of that name is replaced, a new one is appended.\<close>

fun with_column ::
  "string \<Rightarrow> 'a \<Rightarrow> (string \<times> 'a) list \<Rightarrow> (string \<times> 'a) list" where
  "with_column name col [] = [(name, col)]"
| "with_column name col ((k, v) # rest) =
     (if k = name then (k, col) # rest else (k, v) # with_column name col rest)"

text \<open>
  The loop over \<open>[vote + '_cleaned' for vote in self.sorted_vote_histories]\<close>. Each turn
  reads the cleaned column of that name (a column that does not exist is an analysis
  error of the engine), computes its weights, which raises for a column without a value,
  and stores them with \<open>withColumn\<close>. An error in one turn ends the loop: no election
  after it is weighted, and the columns stored before it are lost with the run.
\<close>

fun add_weighted_vote_loop ::
  "string list \<Rightarrow> (string \<times> int option list) list \<Rightarrow> (string \<times> real option list) list
     \<Rightarrow> py_error + (string \<times> real option list) list" where
  "add_weighted_vote_loop [] cleaned df = Inr df"
| "add_weighted_vote_loop (election # rest) cleaned df =
     (case map_of cleaned election of
        None \<Rightarrow> Inl AnalysisException
      | Some col \<Rightarrow>
          (case weighted_column col of
             Inl e \<Rightarrow> Inl e
           | Inr w \<Rightarrow>
               add_weighted_vote_loop rest cleaned
                 (with_column (weighted_col_name election) w df)))"

definition add_weighted_vote ::
  "string list \<Rightarrow> (string \<times> int option list) list
     \<Rightarrow> py_error + (string \<times> real option list) list" where
  "add_weighted_vote svh cleaned =
     add_weighted_vote_loop (map (\<lambda>vote. vote @ ''_cleaned'') svh) cleaned []"

section \<open>Raw score and normalization\<close>

text \<open>\<open>get_weighted_sum\<close>: \<open>float(sum(filter(lambda v: v not in (None, "null"), arr)))\<close>.\<close>

definition get_weighted_sum :: "real option list \<Rightarrow> real" where
  "get_weighted_sum arr_of_elec = sum_list (map the (filter (\<lambda>v. v \<noteq> None) arr_of_elec))"

text \<open>
  The UDF is declared with \<open>FloatType()\<close>, so what the column holds is the sum narrowed
  to a 32-bit float: rounded to the nearest number with a 24-bit significand, a tie
  going to the even one, with exponents from -126 (below it the spacing stays that of
  the subnormal numbers) to 127. A magnitude of \<open>2 ^ 128\<close> or more, infinite in the
  engine, is outside the model; a raw score is a sum of one weight of at most 1 per
  election.
\<close>

definition pow2 :: "int \<Rightarrow> real" where
  "pow2 e = (if 0 \<le> e then 2 ^ nat e else 1 / 2 ^ nat (- e))"

definition round_even :: "real \<Rightarrow> int" where
  "round_even y =
     (let f = \<lfloor>y\<rfloor>; d = y - of_int f
      in if d < 1 / 2 then f
         else if 1 / 2 < d then f + 1
         else if even f then f else f + 1)"

definition float32_exponent :: "real \<Rightarrow> int" where
  "float32_exponent x =
     (case find (\<lambda>e. pow2 e \<le> \<bar>x\<bar>) (rev [-126..127]) of
        None \<Rightarrow> -126
      | Some e \<Rightarrow> e)"

definition float32 :: "real \<Rightarrow> real" where
  "float32 x =
     (let ulp = pow2 (float32_exponent x - 23)
      in of_int (round_even (x / ulp)) * ulp)"

text \<open>
  The column \<open>weighted_turnout\<close>: the array holds the columns \<open>vote + '_weighted'\<close> in
  sorted election order (a column that does not exist is an analysis error of the
  engine), and each of the \<open>n\<close> rows gets the narrowed result of the UDF on its array.
\<close>

definition add_weighted_turnout ::
  "string list \<Rightarrow> (string \<times> real option list) list \<Rightarrow> nat \<Rightarrow> py_error + real list" where
  "add_weighted_turnout svh df n =
     (case sequence_err
             (map (\<lambda>vote. case map_of df (vote @ ''_weighted'') of
                            None \<Rightarrow> Inl AnalysisException
                          | Some col \<Rightarrow> Inr col) svh) of
        Inl e \<Rightarrow> Inl e
      | Inr cols \<Rightarrow>
          Inr (map (\<lambda>i. float32 (get_weighted_sum (map (\<lambda>col. col ! i) cols))) [0..<n]))"

text \<open>SQL division: a zero divisor gives null.\<close>

definition sql_div :: "real \<Rightarrow> real \<Rightarrow> real option" where
  "sql_div a b = (if b = 0 then None else Some (a / b))"

text \<open>
  \<open>_normalize_turnout\<close>: \<open>MAX(weighted_turnout) OVER (PARTITION BY effective_reg_date)\<close>
  gives every row the maximum over the rows with its cohort value, and the new column is
  the quotient.
\<close>

definition normalize_turnout :: "string list \<Rightarrow> real list \<Rightarrow> real option list" where
  "normalize_turnout cohort weighted_turnout =
     (let tbl = zip cohort weighted_turnout
      in map (\<lambda>(c, w).
                let max_to = Max (set (map snd (filter (\<lambda>(c', w'). c' = c) tbl)))
                in sql_div w max_to)
             tbl)"

section \<open>The pipeline (\<open>compute_normalized_turnout\<close>)\<close>

record scored =
  effective_reg_date :: "string list"
  cleaned :: "(string \<times> int option list) list"
  weighted :: "(string \<times> real option list) list"
  weighted_turnout :: "real list"
  normalized_turnout :: "real option list"

text \<open>
  Without any election the generated query has an empty list after \<open>SELECT *,\<close> and
  does not parse.
\<close>

definition compute_normalized_turnout ::
  "('t::linorder) pylib \<Rightarrow> scorer_config \<Rightarrow> dataframe \<Rightarrow> py_error + scored" where
  "compute_normalized_turnout lib cfg vdf =
     bind_err (sort_vote_histories lib (vote_histories cfg)) (\<lambda>svh.
     bind_err (add_effective_reg_date lib cfg svh vdf) (\<lambda>effs.
     bind_err (if vote_histories cfg = [] then Inl ParseException
               else cleaned_columns lib cfg vdf effs (vote_histories cfg)) (\<lambda>cl.
     bind_err (add_weighted_vote svh cl) (\<lambda>ws.
     bind_err (add_weighted_turnout svh ws (length (rows vdf))) (\<lambda>wt.
       Inr \<lparr> effective_reg_date = effs, cleaned = cl, weighted = ws,
             weighted_turnout = wt,
             normalized_turnout = normalize_turnout effs wt \<rparr>)))))"

text \<open>
  \<open>TurnoutScorer(...)\<close> followed by \<open>compute_normalized_turnout()\<close>: the constructor
  preprocesses the voter file, and nothing is derived from a voter file that it rejects.
\<close>

definition run_scorer ::
  "('t::linorder) pylib \<Rightarrow> scorer_config \<Rightarrow> dataframe \<Rightarrow> py_error + scored" where
  "run_scorer lib cfg voter_history_df =
     bind_err (preprocess_vf lib cfg voter_history_df) (\<lambda>(vdf, year_of_birth).
       compute_normalized_turnout lib cfg vdf)"

section \<open>A concrete date library for evaluation\<close>

text \<open>
  For evaluating the model on concrete inputs, dates are triples (year, month, day) in
  lexicographic order, and \<open>strptime\<close> is modelled for formats made of the directives
  \<open>%Y\<close>, \<open>%m\<close>, \<open>%d\<close> and literal punctuation. As in the library, the format becomes a
  regular expression (\<open>%Y\<close>: four digits; \<open>%m\<close>: \<open>1[0-2]|0[1-9]|[1-9]\<close>;
  \<open>%d\<close>: \<open>3[01]|[12]\d|0[1-9]|[1-9]| [1-9]\<close>), the first match in backtracking order
  is taken, unconverted trailing data is an error, and so is a day that the month does
  not have. Any other directive is treated as a bad directive.
\<close>

type_synonym ymd = "nat \<times> nat \<times> nat"

datatype directive = DirY | Dirm | Dird | Lit char

fun parse_format :: "string \<Rightarrow> directive list option" where
  "parse_format [] = Some []"
| "parse_format [c] = (if c = CHR ''%'' then None else Some [Lit c])"
| "parse_format (c # d # cs) =
     (if c = CHR ''%'' then
        (if d = CHR ''Y'' then map_option ((#) DirY) (parse_format cs)
         else if d = CHR ''m'' then map_option ((#) Dirm) (parse_format cs)
         else if d = CHR ''d'' then map_option ((#) Dird) (parse_format cs)
         else None)
      else map_option ((#) (Lit c)) (parse_format (d # cs)))"

definition is_digit :: "char \<Rightarrow> bool" where
  "is_digit c = (c \<in> set ''0123456789'')"

definition digit_val :: "char \<Rightarrow> nat" where
  "digit_val c = of_char c - 48"

definition alts_Y :: "string \<Rightarrow> (nat \<times> string) list" where
  "alts_Y s =
     (case s of
        a # b # c # d # r \<Rightarrow>
          (if is_digit a \<and> is_digit b \<and> is_digit c \<and> is_digit d
           then [(1000 * digit_val a + 100 * digit_val b + 10 * digit_val c + digit_val d, r)]
           else [])
      | _ \<Rightarrow> [])"

definition alts_m :: "string \<Rightarrow> (nat \<times> string) list" where
  "alts_m s =
     (case s of
        a # b # r \<Rightarrow>
          (if a = CHR ''1'' \<and> b \<in> set ''012'' then [(10 + digit_val b, r)] else []) @
          (if a = CHR ''0'' \<and> b \<in> set ''123456789'' then [(digit_val b, r)] else [])
      | _ \<Rightarrow> []) @
     (case s of
        a # r \<Rightarrow> (if a \<in> set ''123456789'' then [(digit_val a, r)] else [])
      | _ \<Rightarrow> [])"

definition alts_d :: "string \<Rightarrow> (nat \<times> string) list" where
  "alts_d s =
     (case s of
        a # b # r \<Rightarrow>
          (if a = CHR ''3'' \<and> b \<in> set ''01'' then [(30 + digit_val b, r)] else []) @
          (if a \<in> set ''12'' \<and> is_digit b then [(10 * digit_val a + digit_val b, r)] else []) @
          (if a = CHR ''0'' \<and> b \<in> set ''123456789'' then [(digit_val b, r)] else [])
      | _ \<Rightarrow> []) @
     (case s of
        a # r \<Rightarrow> (if a \<in> set ''123456789'' then [(digit_val a, r)] else [])
      | _ \<Rightarrow> []) @
     (case s of
        a # b # r \<Rightarrow>
          (if a = CHR '' '' \<and> b \<in> set ''123456789'' then [(digit_val b, r)] else [])
      | _ \<Rightarrow> [])"

text \<open>
  All matches of a directive list against a prefix of the string, in the order the
  backtracking matcher finds them, each with the (year, month, day) groups it captured
  and the unconverted rest.
\<close>

fun matches ::
  "directive list \<Rightarrow> string \<Rightarrow> (nat option \<times> nat option \<times> nat option)
     \<Rightarrow> ((nat option \<times> nat option \<times> nat option) \<times> string) list" where
  "matches [] s g = [(g, s)]"
| "matches (Lit c # ds) s g =
     (case s of [] \<Rightarrow> [] | x # r \<Rightarrow> (if x = c then matches ds r g else []))"
| "matches (DirY # ds) s (y, m, d) =
     concat (map (\<lambda>(v, r). matches ds r (Some v, m, d)) (alts_Y s))"
| "matches (Dirm # ds) s (y, m, d) =
     concat (map (\<lambda>(v, r). matches ds r (y, Some v, d)) (alts_m s))"
| "matches (Dird # ds) s (y, m, d) =
     concat (map (\<lambda>(v, r). matches ds r (y, m, Some v)) (alts_d s))"

definition is_leap :: "nat \<Rightarrow> bool" where
  "is_leap y = (y mod 4 = 0 \<and> (y mod 100 \<noteq> 0 \<or> y mod 400 = 0))"

definition days_in_month :: "nat \<Rightarrow> nat \<Rightarrow> nat" where
  "days_in_month y m =
     (if m = 2 then (if is_leap y then 29 else 28)
      else if m \<in> {4, 6, 9, 11} then 30 else 31)"

definition py_strptime :: "string \<Rightarrow> string \<Rightarrow> ymd option" where
  "py_strptime s fmt =
     (case parse_format fmt of
        None \<Rightarrow> None
      | Some ds \<Rightarrow>
          (case matches ds s (None, None, None) of
             [] \<Rightarrow> None
           | ((y, m, d), rest) # _ \<Rightarrow>
               (let y' = (case y of None \<Rightarrow> 1900 | Some v \<Rightarrow> v);
                    m' = (case m of None \<Rightarrow> 1 | Some v \<Rightarrow> v);
                    d' = (case d of None \<Rightarrow> 1 | Some v \<Rightarrow> v)
                in if rest = [] \<and> 1 \<le> y' \<and> 1 \<le> m' \<and> m' \<le> 12 \<and> 1 \<le> d'
                        \<and> d' \<le> days_in_month y' m'
                   then Some (y', m', d') else None)))"

definition pad2 :: "nat \<Rightarrow> string" where
  "pad2 n = [digit_char (n div 10), digit_char n]"

definition pad4 :: "nat \<Rightarrow> string" where
  "pad4 n = [digit_char (n div 1000), digit_char (n div 100), digit_char (n div 10), digit_char n]"

fun format_dirs :: "directive list \<Rightarrow> ymd \<Rightarrow> string" where
  "format_dirs [] t = []"
| "format_dirs (Lit c # ds) t = c # format_dirs ds t"
| "format_dirs (DirY # ds) (y, m, d) = pad4 y @ format_dirs ds (y, m, d)"
| "format_dirs (Dirm # ds) (y, m, d) = pad2 m @ format_dirs ds (y, m, d)"
| "format_dirs (Dird # ds) (y, m, d) = pad2 d @ format_dirs ds (y, m, d)"

definition py_strftime :: "ymd \<Rightarrow> string \<Rightarrow> string" where
  "py_strftime t fmt = (case parse_format fmt of None \<Rightarrow> fmt | Some ds \<Rightarrow> format_dirs ds t)"

text \<open>\<open>str\<close> of a \<open>date\<close> is its ISO form, \<open>YYYY-MM-DD\<close>.\<close>

definition py_str_date :: "ymd \<Rightarrow> string" where
  "py_str_date t = py_strftime t ''%Y-%m-%d''"

text \<open>
  The concrete library. Its \<open>str_obj\<close> is a placeholder: the inputs evaluated below hold
  strings only, for which \<open>str\<close> is the identity and \<open>str_obj\<close> is never called.
\<close>

definition py_lib :: "ymd \<Rightarrow> ymd pylib" where
  "py_lib now =
     \<lparr> strptime = py_strptime, strftime = py_strftime, today = now,
       str_date = py_str_date, year = (\<lambda>(y, m, d). int y),
       str_obj = (\<lambda>v. ''<object>'') \<rparr>"

section \<open>Sample inputs\<close>

text \<open>
  A configuration with three general elections, ISO registration dates and no party
  filter, and small voter files for it: \<open>sample_df\<close> with five voters, \<open>sample_vdf\<close> what
  preprocessing keeps of it. \<open>sample_dup_df\<close> has two rows that differ only in
  a column the scorer does not keep; \<open>sample_empty_df\<close> has the columns and no rows.
\<close>

definition sample_cfg :: scorer_config where
  "sample_cfg =
     \<lparr> dob_field = ''dob'', id_field = ''id'', party_field = ''party'',
       reg_date_field = ''reg'', formats_reg_date = ''%Y-%m-%d'', formats_dob = ''%Y-%m-%d'',
       vote_histories = [(''G20'', ''11-03-2020''), (''G16'', ''11-08-2016''),
                         (''G18'', ''11-06-2018'')],
       voted_values = [Some ''Y''], config_parties_included = None \<rparr>"

definition sample_columns :: "string list" where
  "sample_columns = [''id'', ''dob'', ''party'', ''reg'', ''G16'', ''G18'', ''G20'', ''note'']"

definition sample_df :: dataframe where
  "sample_df =
     \<lparr> columns = sample_columns,
       rows = [[Some ''1'', Some ''1980-02-03'', Some ''D'', Some ''2019-06-01'',
                None, Some ''Y'', Some ''N'', Some ''a''],
               [Some ''2'', None, Some ''R'', None,
                Some ''Y'', Some ''Y'', Some ''Y'', Some ''b''],
               [Some ''3'', Some ''null'', Some ''R'', Some ''2017-01-01'',
                None, Some ''N'', Some ''Y'', Some ''c''],
               [Some ''4'', Some ''1975-07-30'', Some ''D'', Some ''2018-01-01'',
                None, Some ''Y'', Some ''Y'', Some ''d''],
               [Some ''5'', Some ''1990-12-24'', Some ''D'', Some ''2018-01-01'',
                None, Some ''N'', Some ''N'', Some ''e'']] \<rparr>"

definition sample_vdf :: dataframe where
  "sample_vdf =
     \<lparr> columns = [''dob'', ''id'', ''party'', ''reg'', ''G20'', ''G16'', ''G18''],
       rows = [[Some ''1980-02-03'', Some ''1'', Some ''D'', Some ''2019-06-01'',
                Some ''N'', None, Some ''Y''],
               [None, Some ''2'', Some ''R'', None,
                Some ''Y'', Some ''Y'', Some ''Y''],
               [Some ''null'', Some ''3'', Some ''R'', Some ''2017-01-01'',
                Some ''Y'', None, Some ''N''],
               [Some ''1975-07-30'', Some ''4'', Some ''D'', Some ''2018-01-01'',
                Some ''Y'', None, Some ''Y''],
               [Some ''1990-12-24'', Some ''5'', Some ''D'', Some ''2018-01-01'',
                Some ''N'', None, Some ''N'']] \<rparr>"

definition sample_dup_df :: dataframe where
  "sample_dup_df =
     \<lparr> columns = sample_columns,
       rows = [[Some ''1'', Some ''1980-02-03'', Some ''D'', Some ''2019-06-01'',
                None, Some ''Y'', Some ''N'', Some ''a''],
               [Some ''1'', Some ''1980-02-03'', Some ''D'', Some ''2019-06-01'',
                None, Some ''Y'', Some ''N'', Some ''b'']] \<rparr>"

definition sample_empty_df :: dataframe where
  "sample_empty_df = \<lparr> columns = sample_columns, rows = [] \<rparr>"

text \<open>
  Raw configurations. In \<open>sample_raw_config\<close> the date of the election \<open>G18\<close> is written
  year first; \<open>sample_raw_config_no_dob\<close> has the same dates and lacks the \<open>dob\<close> format.
\<close>

definition sample_histories :: "(string \<times> pyval) list" where
  "sample_histories =
     [(''G16'', PStr ''11-08-2016''), (''G18'', PStr ''2018-11-06''),
      (''G20'', PStr ''11-03-2020'')]"

definition sample_raw_config :: "(string \<times> pyval) list" where
  "sample_raw_config =
     [(''voter_file'', PDict [(''bucket'', PStr ''b''), (''key_pattern'', PStr ''k'')]),
      (''column_names'', PDict [(''dob_field'', PStr ''dob''), (''id_field'', PStr ''id''),
                               (''party_field'', PStr ''party''),
                               (''reg_date_field'', PStr ''reg'')]),
      (''formats'', PDict [(''reg_date'', PStr ''%Y-%m-%d''), (''dob'', PStr ''%Y-%m-%d'')]),
      (''vote_histories'', PDict sample_histories),
      (''voted_values'', PList [PStr ''Y''])]"

definition sample_raw_config_no_dob :: "(string \<times> pyval) list" where
  "sample_raw_config_no_dob =
     [(''voter_file'', PDict [(''bucket'', PStr ''b''), (''key_pattern'', PStr ''k'')]),
      (''column_names'', PDict [(''dob_field'', PStr ''dob''), (''id_field'', PStr ''id''),
                               (''party_field'', PStr ''party''),
                               (''reg_date_field'', PStr ''reg'')]),
      (''formats'', PDict [(''reg_date'', PStr ''%Y-%m-%d'')]),
      (''vote_histories'', PDict sample_histories),
      (''voted_values'', PList [PStr ''Y''])]"

text \<open>
  A cleaned column with turnout rate 0.4, the cleaned columns of two elections of which
  the first has no value, those of two elections that both have values, the weighted
  columns of three voters (the first with no
  weighted vote at all), and the cohorts and raw scores of four voters.
\<close>

definition sample_cleaned :: "int option list" where
  "sample_cleaned = [Some 1, Some 1, Some 0, Some 0, Some 0, None]"

definition sample_cleaned_table :: "(string \<times> int option list) list" where
  "sample_cleaned_table =
     [(''G16_cleaned'', [None, None]), (''G18_cleaned'', [Some 1, Some 0])]"

definition sample_cleaned_pair :: "(string \<times> int option list) list" where
  "sample_cleaned_pair =
     [(''G16_cleaned'', sample_cleaned),
      (''G18_cleaned'', [Some 1, None, Some 1, None, Some 0, Some 0])]"






text \<open>What the pipeline computes for \<open>sample_vdf\<close>.\<close>

definition sample_scored :: scored where
  "sample_scored =
     \<lparr> effective_reg_date =
         [''2018-11-06'', ''2016-11-08'', ''2018-11-06'', ''2018-11-06'', ''2018-11-06''],
       cleaned =
         [(''G20_cleaned'', [Some 0, Some 1, Some 1, Some 1, Some 0]),
          (''G16_cleaned'', [None, Some 1, None, None, None]),
          (''G18_cleaned'', [Some 1, Some 1, Some 0, Some 1, Some 0])],
       weighted =
         [(''G16_weighted'', [None, Some 0, None, None, None]),
          (''G18_weighted'', [Some (2 / 5), Some (2 / 5), Some 0, Some (2 / 5), Some 0]),
          (''G20_weighted'', [Some 0, Some (2 / 5), Some (2 / 5), Some (2 / 5), Some 0])],
       weighted_turnout =
         [13421773 / 33554432, 13421773 / 16777216, 13421773 / 33554432,
          13421773 / 16777216, 0],
       normalized_turnout = [Some (1 / 2), Some 1, Some (1 / 2), Some 1, Some 0] \<rparr>"

section \<open>Facts about the concrete library\<close>

lemma py_parse_examples:
  "py_strptime ''11-06-2018'' VHIST_DATE_FORMAT = Some (2018, 11, 6)"
  "py_strptime ''2019-06-01'' ''%Y-%m-%d'' = Some (2019, 6, 1)"
  "py_strptime ''2018-01-01'' ''%Y-%m-%d'' = Some (2018, 1, 1)"
  "py_strptime ''06/01/2019'' ''%Y-%m-%d'' = None"
  "py_strptime ''01/01/2018'' ''%m/%d/%Y'' = Some (2018, 1, 1)"
  "py_strptime ''2026-11-04'' ''%m/%d/%Y'' = None"
  "py_str_date (2026, 11, 4) = ''2026-11-04''"
  by code_simp+

section \<open>The vote record cleaner: labels and eligibility\<close>

text \<open>
  C1. For every voter and election whose date parses, the cleaner returns normally, and
  its label is decided by the eligibility date, the earlier of the parsed stated and the
  parsed effective registration date: 1 when that date is on or before the election date
  and the vote code is among the voted values, 0 when it is on or before the election
  date and the code is not among them, null when it is after the election date, and
  null when one of the two registration dates does not parse with the registration-date
  format. The stated date that is parsed is the cell itself, or \<open>str\<close> of today's date
  when the cell is null.
\<close>

theorem clean_voting_record_label:
  assumes "strptime lib elections_date VHIST_DATE_FORMAT = Some election_dt"
  shows "clean_voting_record lib fmt voted vote eff_reg_date reg_date elections_date =
     Inr (case (strptime lib (stated_reg_string lib reg_date) fmt,
                strptime lib (py_str eff_reg_date) fmt) of
            (Some reg_dt, Some eff_dt) \<Rightarrow>
               (if min reg_dt eff_dt \<le> election_dt
                then Some (if vote \<in> set voted then 1 else 0) else None)
          | _ \<Rightarrow> None)"
  using assms
  by (auto simp: clean_voting_record_def Let_def min_def split: option.splits)

theorem clean_voting_record_label_witness:
  "strptime (py_lib (2026, 11, 4)) ''11-06-2018'' VHIST_DATE_FORMAT = Some (2018, 11, 6)
   \<and> clean_voting_record (py_lib (2026, 11, 4)) ''%Y-%m-%d'' [Some ''Y''] (Some ''Y'')
        (Some ''2018-01-01'') (Some ''2019-06-01'') ''11-06-2018'' = Inr (Some 1)
   \<and> clean_voting_record (py_lib (2026, 11, 4)) ''%Y-%m-%d'' [Some ''Y''] (Some ''N'')
        (Some ''2018-01-01'') (Some ''2019-06-01'') ''11-06-2018'' = Inr (Some 0)
   \<and> clean_voting_record (py_lib (2026, 11, 4)) ''%Y-%m-%d'' [Some ''Y''] (Some ''Y'')
        (Some ''2018-01-01'') (Some ''06/01/2019'') ''11-06-2018'' = Inr None"
proof -
  have h: "strptime (py_lib (2026, 11, 4)) ''11-06-2018'' VHIST_DATE_FORMAT = Some (2018, 11, 6)"
    by (simp add: py_lib_def py_parse_examples)
  have p: "strptime (py_lib (2026, 11, 4)) = py_strptime"
    by (simp add: py_lib_def)
  note t = clean_voting_record_label [OF h, of "''%Y-%m-%d''" "[Some ''Y'']"]
  show ?thesis
    using h t [of "Some ''Y''" "Some ''2018-01-01''" "Some ''2019-06-01''"]
      t [of "Some ''N''" "Some ''2018-01-01''" "Some ''2019-06-01''"]
      t [of "Some ''Y''" "Some ''2018-01-01''" "Some ''06/01/2019''"]
    by (simp add: p stated_reg_string_def is_null_def py_str_def py_parse_examples)
qed

text \<open>
  When the stated registration date is null and \<open>str\<close> of today's date parses with the
  registration-date format, the effective registration date alone decides: an election
  on or after it gets the label 0 or 1.
\<close>

lemma clean_voting_record_null_reg_date_parsed:
  assumes "is_null reg_date"
    and "strptime lib (str_date lib (today lib)) fmt = Some today_dt"
    and "strptime lib (py_str eff_reg_date) fmt = Some eff_dt"
    and "strptime lib elections_date VHIST_DATE_FORMAT = Some election_dt"
    and "eff_dt \<le> election_dt"
  shows "clean_voting_record lib fmt voted vote eff_reg_date reg_date elections_date =
           Inr (Some (if vote \<in> set voted then 1 else 0))"
  using assms
  by (auto simp: clean_voting_record_def stated_reg_string_def Let_def)

text \<open>
  C6. A voter with a null stated registration date is meant to be cleaned by the
  effective registration date alone. With the registration-date format \<open>%m/%d/%Y\<close> the
  cleaner replaces the null date by today's date, takes \<open>str\<close> of it (\<open>2026-11-04\<close>) and
  parses that with the format, which fails: the voter whose effective registration date
  01/01/2018 is before the election of 11-06-2018, and who voted in it, gets null
  instead of 1.
\<close>

theorem clean_voting_record_null_reg_date_non_iso:
  "strptime (py_lib (2026, 11, 4)) ''01/01/2018'' ''%m/%d/%Y'' = Some (2018, 1, 1)
   \<and> strptime (py_lib (2026, 11, 4)) ''11-06-2018'' VHIST_DATE_FORMAT = Some (2018, 11, 6)
   \<and> (2018, 1, 1) \<le> ((2018, 11, 6) :: ymd)
   \<and> clean_voting_record (py_lib (2026, 11, 4)) ''%m/%d/%Y'' [Some ''Y''] (Some ''Y'')
        (Some ''01/01/2018'') None ''11-06-2018'' = Inr None"
  by (simp add: clean_voting_record_def stated_reg_string_def is_null_def py_str_def
      py_lib_def py_parse_examples)

section \<open>Preprocessing: the two fatal checks\<close>

text \<open>
  C9. If the voter table, projected to the required columns and filtered by party where
  that is configured, holds the same row twice, preprocessing raises: the error of the
  column validation if the voter file lacks a configured column, and otherwise the
  \<open>RuntimeError\<close> about duplicates. The run of the scorer ends with the same error, so no
  derived column is computed and no row is dropped.
\<close>

theorem preprocess_vf_duplicates:
  assumes "\<not> distinct (rows (projected_table cfg voter_history_df))"
  shows "preprocess_vf lib cfg voter_history_df =
           Inl (case validate_against_voter_file cfg voter_history_df of
                  Inl e \<Rightarrow> e
                | Inr u \<Rightarrow> RuntimeError duplicates_msg)
         \<and> run_scorer lib cfg voter_history_df =
           Inl (case validate_against_voter_file cfg voter_history_df of
                  Inl e \<Rightarrow> e
                | Inr u \<Rightarrow> RuntimeError duplicates_msg)"
proof -
  let ?rs = "rows (projected_table cfg voter_history_df)"
  from assms have ne: "length ?rs \<noteq> 0" by auto
  from assms have dup: "length (remdups ?rs) \<noteq> length ?rs"
    by (metis distinct_remdups length_remdups_eq remdups_id_iff_distinct)
  have 1: "preprocess_vf lib cfg voter_history_df =
           Inl (case validate_against_voter_file cfg voter_history_df of
                  Inl e \<Rightarrow> e
                | Inr u \<Rightarrow> RuntimeError duplicates_msg)"
    using ne dup by (simp add: preprocess_vf_def Let_def split: sum.splits)
  then show ?thesis by (simp add: run_scorer_def bind_err_def)
qed

theorem preprocess_vf_duplicates_witness:
  "\<not> distinct (rows (projected_table sample_cfg sample_dup_df))
   \<and> distinct (rows sample_dup_df)
   \<and> preprocess_vf (py_lib (2026, 11, 4)) sample_cfg sample_dup_df
        = Inl (RuntimeError duplicates_msg)
   \<and> run_scorer (py_lib (2026, 11, 4)) sample_cfg sample_dup_df
        = Inl (RuntimeError duplicates_msg)"
proof -
  have h: "\<not> distinct (rows (projected_table sample_cfg sample_dup_df))"
    by code_simp
  have d: "distinct (rows sample_dup_df)"
    by code_simp
  have v: "validate_against_voter_file sample_cfg sample_dup_df = Inr ()"
    by code_simp
  show ?thesis
    using h d preprocess_vf_duplicates [OF h, of "py_lib (2026, 11, 4)"]
    by (simp add: v)
qed

text \<open>
  C10. The zero-row check does not depend on the party filter: whenever the projected
  table has no rows, preprocessing raises and the run ends there, before any year of
  birth is computed. With the filter on, the error is the \<open>ValueError\<close> about invalid party
  values. With the filter off, which is when \<open>parties_included\<close> is absent or empty, it is
  the \<open>UnboundLocalError\<close> (a \<open>NameError\<close>) for \<open>parties_to_include\<close>, the first of the two
  locals that only the filter branch assigns.
\<close>

theorem preprocess_vf_zero_rows:
  assumes "rows (projected_table cfg voter_history_df) = []"
  shows "preprocess_vf lib cfg voter_history_df =
           Inl (case validate_against_voter_file cfg voter_history_df of
                  Inl e \<Rightarrow> e
                | Inr u \<Rightarrow>
                    (case parties_included cfg of
                       None \<Rightarrow> UnboundLocalError ''parties_to_include''
                     | Some ps \<Rightarrow> ValueError (invalid_party_msg ps (party_field cfg))))
         \<and> (parties_included cfg = None) =
             (config_parties_included cfg = None \<or> config_parties_included cfg = Some [])
         \<and> run_scorer lib cfg voter_history_df =
           Inl (case validate_against_voter_file cfg voter_history_df of
                  Inl e \<Rightarrow> e
                | Inr u \<Rightarrow>
                    (case parties_included cfg of
                       None \<Rightarrow> UnboundLocalError ''parties_to_include''
                     | Some ps \<Rightarrow> ValueError (invalid_party_msg ps (party_field cfg))))"
proof -
  have 1: "preprocess_vf lib cfg voter_history_df =
           Inl (case validate_against_voter_file cfg voter_history_df of
                  Inl e \<Rightarrow> e
                | Inr u \<Rightarrow>
                    (case parties_included cfg of
                       None \<Rightarrow> UnboundLocalError ''parties_to_include''
                     | Some ps \<Rightarrow> ValueError (invalid_party_msg ps (party_field cfg))))"
    using assms by (simp add: preprocess_vf_def Let_def split: sum.splits option.splits)
  have 2: "(parties_included cfg = None) =
             (config_parties_included cfg = None \<or> config_parties_included cfg = Some [])"
    by (auto simp: parties_included_def split: option.splits)
  from 1 2 show ?thesis by (simp add: run_scorer_def bind_err_def)
qed

theorem preprocess_vf_zero_rows_witness:
  "rows (projected_table sample_cfg sample_empty_df) = []
   \<and> preprocess_vf (py_lib (2026, 11, 4)) sample_cfg sample_empty_df
        = Inl (UnboundLocalError ''parties_to_include'')
   \<and> run_scorer (py_lib (2026, 11, 4)) sample_cfg sample_empty_df
        = Inl (UnboundLocalError ''parties_to_include'')"
proof -
  have h: "rows (projected_table sample_cfg sample_empty_df) = []"
    by code_simp
  have v: "validate_against_voter_file sample_cfg sample_empty_df = Inr ()"
    by code_simp
  have p: "parties_included sample_cfg = None"
    by code_simp
  show ?thesis
    using h preprocess_vf_zero_rows [OF h, of "py_lib (2026, 11, 4)"]
    by (simp add: v p)
qed

section \<open>Configuration validation: election dates\<close>

lemma check_vote_histories_find:
  "check_vote_histories lib vh =
     (case find (\<lambda>(elec, elecdate).
                   strptime lib (str_val lib elecdate) VHIST_DATE_FORMAT = None) vh of
        None \<Rightarrow> None
      | Some (elec, elecdate) \<Rightarrow> Some (ValueError (date_format_msg elec)))"
  by (induction vh) (auto split: option.splits)

lemma check_required_fields_error:
  "check_required_fields req config = Some e \<Longrightarrow> e = KeyError \<or> e = TypeError"
  by (induction req config rule: check_required_fields.induct)
     (auto split: option.splits pyval.splits if_splits)

lemma check_list_fields_error:
  "check_list_fields els config = Some e \<Longrightarrow> e = TypeError"
  by (induction els config rule: check_list_fields.induct)
     (auto split: option.splits pyval.splits)

lemma shape_checks_error:
  "shape_checks config = Some e \<Longrightarrow> e = KeyError \<or> e = TypeError"
  by (auto simp: shape_checks_def dest: check_required_fields_error
      split: if_splits option.splits pyval.splits)

lemma sample_dates:
  "py_strptime ''11-08-2016'' VHIST_DATE_FORMAT = Some (2016, 11, 8)"
  "py_strptime ''2018-11-06'' VHIST_DATE_FORMAT = None"
  "py_strptime ''11-03-2020'' VHIST_DATE_FORMAT = Some (2020, 11, 3)"
  by code_simp+

text \<open>
  C8, as the code has it. Let \<open>vote_histories\<close> be a dictionary. If some election date
  does not parse as \<open>%m-%d-%Y\<close>, constructing \<open>TurnoutConfig\<close> fails: with the error of the
  key and shape checks if one of them fails, since they run first, and otherwise with the
  format error that names the first such election in iteration order. If every election
  date parses, construction raises no format error.
\<close>

theorem TurnoutConfig_date_format:
  assumes "map_of config VOTE_HISTORIES = Some (PDict vh)"
  shows "case find (\<lambda>(elec, elecdate).
                      strptime lib (str_val lib elecdate) VHIST_DATE_FORMAT = None) vh of
           Some (elec, elecdate) \<Rightarrow>
             TurnoutConfig lib config =
               Inl (case shape_checks config of
                      Some e \<Rightarrow> e
                    | None \<Rightarrow> ValueError (date_format_msg elec))
         | None \<Rightarrow> (\<forall>m. TurnoutConfig lib config \<noteq> Inl (ValueError m))"
proof (cases "find (\<lambda>(elec, elecdate).
                      strptime lib (str_val lib elecdate) VHIST_DATE_FORMAT = None) vh")
  case None
  then have c: "check_vote_histories lib vh = None"
    by (simp add: check_vote_histories_find)
  have "TurnoutConfig lib config \<noteq> Inl (ValueError m)" for m
    using assms c
    by (auto simp: TurnoutConfig_def validated_config_def
        dest: shape_checks_error check_list_fields_error
        split: option.splits sum.splits)
  with None show ?thesis by simp
next
  case (Some p)
  obtain elec elecdate where p: "p = (elec, elecdate)" by (cases p)
  from Some p have c: "check_vote_histories lib vh = Some (ValueError (date_format_msg elec))"
    by (simp add: check_vote_histories_find)
  have "TurnoutConfig lib config =
          Inl (case shape_checks config of
                 Some e \<Rightarrow> e
               | None \<Rightarrow> ValueError (date_format_msg elec))"
    using assms c
    by (simp add: TurnoutConfig_def validated_config_def split: option.splits)
  with Some p show ?thesis by simp
qed

theorem TurnoutConfig_date_format_witness:
  "map_of sample_raw_config VOTE_HISTORIES = Some (PDict sample_histories)
   \<and> shape_checks sample_raw_config = None
   \<and> TurnoutConfig (py_lib (2026, 11, 4)) sample_raw_config
        = Inl (ValueError (date_format_msg ''G18''))"
proof -
  have h: "map_of sample_raw_config VOTE_HISTORIES = Some (PDict sample_histories)"
    by code_simp
  have s: "shape_checks sample_raw_config = None"
    by code_simp
  show ?thesis
    using h s TurnoutConfig_date_format [OF h, of "py_lib (2026, 11, 4)"]
    by (simp add: sample_histories_def str_val_def py_lib_def sample_dates)
qed

text \<open>
  C8, as stated, fails: in this configuration the date of \<open>G18\<close> does not match
  \<open>%m-%d-%Y\<close>, and construction fails with the \<open>KeyError\<close> for the missing \<open>dob\<close> format, not
  with a format error.
\<close>

theorem TurnoutConfig_bad_date_KeyError:
  "map_of sample_raw_config_no_dob VOTE_HISTORIES = Some (PDict sample_histories)
   \<and> (''G18'', PStr ''2018-11-06'') \<in> set sample_histories
   \<and> strptime (py_lib (2026, 11, 4)) ''2018-11-06'' VHIST_DATE_FORMAT = None
   \<and> TurnoutConfig (py_lib (2026, 11, 4)) sample_raw_config_no_dob = Inl KeyError"
  by code_simp

section \<open>Turnout weighting\<close>

lemma sum_cleaned_counts_ones:
  assumes "\<forall>v\<in>set col. v = None \<or> v = Some 0 \<or> v = Some (1::int)"
  shows "sum_list (map the (filter (\<lambda>v. v \<noteq> None) col))
           = int (length (filter (\<lambda>v. v = Some 1) col))"
  using assms by (induction col) auto

lemma norm_fac_turnout_rate:
  assumes "\<forall>v\<in>set col. v = None \<or> v = Some 0 \<or> v = Some 1"
    and "\<exists>v\<in>set col. v \<noteq> None"
  shows "norm_fac col = Some (turnout_rate col)"
proof -
  from assms(2) have "filter (\<lambda>v. v \<noteq> None) col \<noteq> []"
    by (simp add: filter_empty_conv)
  then show ?thesis
    using sum_cleaned_counts_ones [OF assms(1)]
    by (simp add: norm_fac_def turnout_rate_def Let_def)
qed

text \<open>One column: with a value that is not null, the weights are those of the formula.\<close>

lemma weighted_column_formula:
  assumes "\<forall>v\<in>set col. v = None \<or> v = Some 0 \<or> v = Some 1"
    and "\<exists>v\<in>set col. v \<noteq> None"
  shows "weighted_column col =
           Inr (map (\<lambda>v. case v of
                           None \<Rightarrow> None
                         | Some c \<Rightarrow> Some (real_of_int c * (1 - turnout_rate col))) col)"
proof -
  have "map_option (\<lambda>c. real_of_int c * (1 - r)) =
        (\<lambda>v. case v of None \<Rightarrow> None | Some c \<Rightarrow> Some (real_of_int c * (1 - r)))" for r
    by (auto simp: fun_eq_iff split: option.splits)
  then show ?thesis
    using norm_fac_turnout_rate [OF assms]
    by (simp add: weighted_column_def)
qed

lemma with_column_map_of:
  "map_of (with_column name col df) = (map_of df)(name \<mapsto> col)"
  by (induction df) (auto simp: fun_eq_iff)

lemma with_column_set:
  "set (with_column name col df) \<subseteq> insert (name, col) (set df)"
  by (induction df) (auto split: if_splits)

text \<open>
  The loop, from any table \<open>df\<close>: when the election names are distinct and free of
  \<open>_cleaned\<close>, and every cleaned column has a value, it ends normally, every election's
  weights are stored under \<open>vote + '_weighted'\<close>, and no other column changes.
\<close>

lemma add_weighted_vote_loop_result:
  assumes "distinct votes"
    and "\<forall>vote\<in>set votes. split_first (vote @ ''_cleaned'') ''_cleaned'' = vote"
    and "\<forall>vote\<in>set votes. \<exists>col. map_of cl (vote @ ''_cleaned'') = Some col
           \<and> (\<forall>v\<in>set col. v = None \<or> v = Some 0 \<or> v = Some 1) \<and> (\<exists>v\<in>set col. v \<noteq> None)"
  shows "\<exists>ws. add_weighted_vote_loop (map (\<lambda>vote. vote @ ''_cleaned'') votes) cl df = Inr ws
           \<and> (\<forall>vote\<in>set votes. \<forall>col. map_of cl (vote @ ''_cleaned'') = Some col \<longrightarrow>
                 map_of ws (vote @ ''_weighted'') =
                   Some (map (\<lambda>v. case v of
                                   None \<Rightarrow> None
                                 | Some c \<Rightarrow> Some (real_of_int c * (1 - turnout_rate col))) col))
           \<and> (\<forall>name. name \<notin> (\<lambda>vote. vote @ ''_weighted'') ` set votes \<longrightarrow>
                 map_of ws name = map_of df name)"
  using assms
proof (induction votes arbitrary: df)
  case Nil
  then show ?case by simp
next
  case (Cons vote votes)
  let ?W = "\<lambda>col. map (\<lambda>v. case v of
                              None \<Rightarrow> None
                            | Some c \<Rightarrow> Some (real_of_int c * (1 - turnout_rate col))) col"
  from Cons.prems(3) obtain col where
    col: "map_of cl (vote @ ''_cleaned'') = Some col"
    and rng: "\<forall>v\<in>set col. v = None \<or> v = Some 0 \<or> v = Some 1"
    and nn: "\<exists>v\<in>set col. v \<noteq> None"
    by auto
  have w: "weighted_column col = Inr (?W col)"
    by (rule weighted_column_formula [OF rng nn])
  from Cons.prems(2) have nm: "weighted_col_name (vote @ ''_cleaned'') = vote @ ''_weighted''"
    by (simp add: weighted_col_name_def)
  let ?df = "with_column (vote @ ''_weighted'') (?W col) df"
  have step: "add_weighted_vote_loop (map (\<lambda>vote. vote @ ''_cleaned'') (vote # votes)) cl df
                = add_weighted_vote_loop (map (\<lambda>vote. vote @ ''_cleaned'') votes) cl ?df"
    by (simp add: col w nm)
  from Cons.prems have "distinct votes"
    and "\<forall>vote\<in>set votes. split_first (vote @ ''_cleaned'') ''_cleaned'' = vote"
    and "\<forall>vote\<in>set votes. \<exists>col. map_of cl (vote @ ''_cleaned'') = Some col
           \<and> (\<forall>v\<in>set col. v = None \<or> v = Some 0 \<or> v = Some 1) \<and> (\<exists>v\<in>set col. v \<noteq> None)"
    by simp_all
  from Cons.IH [OF this, of ?df] obtain ws where
    ws: "add_weighted_vote_loop (map (\<lambda>vote. vote @ ''_cleaned'') votes) cl ?df = Inr ws"
    and found: "\<forall>vote\<in>set votes. \<forall>col. map_of cl (vote @ ''_cleaned'') = Some col \<longrightarrow>
                 map_of ws (vote @ ''_weighted'') = Some (?W col)"
    and others: "\<forall>name. name \<notin> (\<lambda>vote. vote @ ''_weighted'') ` set votes \<longrightarrow>
                 map_of ws name = map_of ?df name"
    by blast
  from Cons.prems(1) have "vote @ ''_weighted'' \<notin> (\<lambda>vote. vote @ ''_weighted'') ` set votes"
    by auto
  with others have head: "map_of ws (vote @ ''_weighted'') = Some (?W col)"
    by (simp add: with_column_map_of)
  have "\<forall>v\<in>set (vote # votes). \<forall>c. map_of cl (v @ ''_cleaned'') = Some c \<longrightarrow>
          map_of ws (v @ ''_weighted'') = Some (?W c)"
    using head col found by auto
  moreover have "\<forall>name. name \<notin> (\<lambda>vote. vote @ ''_weighted'') ` set (vote # votes) \<longrightarrow>
                   map_of ws name = map_of df name"
    using others by (auto simp: with_column_map_of)
  ultimately show ?case
    using step ws by (intro exI [of _ ws]) simp
qed

text \<open>
  C3, as the code has it. In a run where every election has at least one voter whose
  cleaned value is not null (the election names being distinct and free of \<open>_cleaned\<close>,
  and the cleaned values being 1, 0 or null as the cleaner produces them), the weighting
  loop ends normally, and for every election the column of weighted votes holds, for
  every voter, \<open>cleaned * (1 - turnout_rate)\<close> when the cleaned value is not null and null
  when it is, the turnout rate of the election being the number of 1s divided by the
  number of values that are not null.
\<close>

theorem add_weighted_vote_turnout_rate:
  assumes "distinct svh"
    and "\<forall>vote\<in>set svh. split_first (vote @ ''_cleaned'') ''_cleaned'' = vote"
    and "\<forall>vote\<in>set svh. \<exists>col. map_of cl (vote @ ''_cleaned'') = Some col
           \<and> (\<forall>v\<in>set col. v = None \<or> v = Some 0 \<or> v = Some 1) \<and> (\<exists>v\<in>set col. v \<noteq> None)"
  shows "\<exists>ws. add_weighted_vote svh cl = Inr ws
           \<and> (\<forall>vote\<in>set svh. \<forall>col. map_of cl (vote @ ''_cleaned'') = Some col \<longrightarrow>
                 map_of ws (vote @ ''_weighted'') =
                   Some (map (\<lambda>v. case v of
                                   None \<Rightarrow> None
                                 | Some c \<Rightarrow> Some (real_of_int c * (1 - turnout_rate col))) col))"
  using add_weighted_vote_loop_result [OF assms, of "[]"]
  unfolding add_weighted_vote_def by blast

text \<open>At turnout rate 0.4: 1 weighs 0.6, 0 weighs 0, null stays null.\<close>

theorem add_weighted_vote_turnout_rate_witness:
  "distinct [''G16'', ''G18'']
   \<and> list_all (\<lambda>vote. split_first (vote @ ''_cleaned'') ''_cleaned'' = vote) [''G16'', ''G18'']
   \<and> map_of sample_cleaned_pair ''G16_cleaned'' = Some sample_cleaned
   \<and> turnout_rate sample_cleaned = 4 / 10
   \<and> (\<exists>ws. add_weighted_vote [''G16'', ''G18''] sample_cleaned_pair = Inr ws
         \<and> map_of ws ''G16_weighted''
             = Some [Some (6 / 10), Some (6 / 10), Some 0, Some 0, Some 0, None])"
proof -
  let ?svh = "[''G16'', ''G18'']"
  have h1: "distinct ?svh" by simp
  have h2: "\<forall>vote\<in>set ?svh. split_first (vote @ ''_cleaned'') ''_cleaned'' = vote"
    by simp
  have g16: "map_of sample_cleaned_pair ''G16_cleaned'' = Some sample_cleaned"
    by (simp add: sample_cleaned_pair_def)
  have g18: "map_of sample_cleaned_pair ''G18_cleaned''
               = Some [Some 1, None, Some 1, None, Some 0, Some 0]"
    by (simp add: sample_cleaned_pair_def)
  have h3: "\<forall>vote\<in>set ?svh. \<exists>col. map_of sample_cleaned_pair (vote @ ''_cleaned'') = Some col
           \<and> (\<forall>v\<in>set col. v = None \<or> v = Some 0 \<or> v = Some 1) \<and> (\<exists>v\<in>set col. v \<noteq> None)"
    using g16 g18 by (simp add: sample_cleaned_def)
  have r: "turnout_rate sample_cleaned = 4 / 10"
    by (simp add: turnout_rate_def sample_cleaned_def)
  have m: "map (\<lambda>v. case v of None \<Rightarrow> None | Some c \<Rightarrow> Some (real_of_int c * (1 - 4 / 10)))
             sample_cleaned = [Some (6 / 10), Some (6 / 10), Some 0, Some 0, Some 0, None]"
    by (simp add: sample_cleaned_def)
  from add_weighted_vote_turnout_rate [OF h1 h2 h3] obtain ws where
    ws: "add_weighted_vote ?svh sample_cleaned_pair = Inr ws"
    and f: "\<forall>vote\<in>set ?svh. \<forall>col. map_of sample_cleaned_pair (vote @ ''_cleaned'') = Some col \<longrightarrow>
              map_of ws (vote @ ''_weighted'') =
                Some (map (\<lambda>v. case v of
                                None \<Rightarrow> None
                              | Some c \<Rightarrow> Some (real_of_int c * (1 - turnout_rate col))) col)"
    by blast
  from f g16 have "map_of ws ''G16_weighted'' =
      Some (map (\<lambda>v. case v of
                      None \<Rightarrow> None
                    | Some c \<Rightarrow> Some (real_of_int c * (1 - turnout_rate sample_cleaned)))
              sample_cleaned)"
    by simp
  then have "map_of ws ''G16_weighted''
               = Some [Some (6 / 10), Some (6 / 10), Some 0, Some 0, Some 0, None]"
    unfolding r m .
  with ws h1 h2 g16 r show ?thesis
    unfolding list_all_iff by blast
qed

text \<open>
  C3, as stated for every election, fails: here no voter has a cleaned value for \<open>G16\<close>,
  so its query yields no turnout rate and computing the weight raises. That ends the
  loop, and the voters get no weighted vote for \<open>G18\<close> either, an election with turnout
  rate 0.5.
\<close>

theorem add_weighted_vote_all_null_TypeError:
  "map_of sample_cleaned_table ''G16_cleaned'' = Some [None, None]
   \<and> map_of sample_cleaned_table ''G18_cleaned'' = Some [Some 1, Some 0]
   \<and> turnout_rate [Some 1, Some 0] = 1 / 2
   \<and> add_weighted_vote [''G16'', ''G18''] sample_cleaned_table = Inl TypeError"
  by (simp add: sample_cleaned_table_def turnout_rate_def add_weighted_vote_def
      weighted_column_def norm_fac_def)

section \<open>The raw score\<close>

lemma sequence_err_Inr:
  "sequence_err xs = Inr vs \<Longrightarrow> xs = map Inr vs"
  by (induction xs arbitrary: vs) (auto split: sum.splits)

lemma sequence_err_length:
  "sequence_err xs = Inr vs \<Longrightarrow> length vs = length xs"
  by (drule sequence_err_Inr) simp

lemma sequence_err_map_Inr:
  "sequence_err (map Inr vs) = Inr vs"
  by (induction vs) auto

lemma pow2_pos: "0 < pow2 e"
  by (simp add: pow2_def)

lemma round_even_zero: "round_even 0 = 0"
  by (simp add: round_even_def)

lemma round_even_nonneg: "0 \<le> y \<Longrightarrow> 0 \<le> round_even y"
  by (auto simp: round_even_def Let_def)

lemma float32_zero: "float32 0 = 0"
  by (simp add: float32_def round_even_zero)

lemma float32_nonneg: "0 \<le> x \<Longrightarrow> 0 \<le> float32 x"
  using pow2_pos [of "float32_exponent x - 23"]
  by (auto simp: float32_def Let_def intro!: mult_nonneg_nonneg round_even_nonneg)

lemma float32_two_fifths: "float32 (2 / 5) = 13421773 / 33554432"
  by code_simp

lemma float32_four_fifths: "float32 (4 / 5) = 13421773 / 16777216"
  by code_simp


lemma get_weighted_sum_as_zero:
  "get_weighted_sum arr = sum_list (map (\<lambda>v. case v of None \<Rightarrow> 0 | Some x \<Rightarrow> x) arr)"
  unfolding get_weighted_sum_def by (induction arr) (auto split: option.splits)


text \<open>The column, when the array's columns \<open>cols\<close> all exist.\<close>

lemma add_weighted_turnout_columns:
  assumes "map (\<lambda>vote. map_of df (vote @ ''_weighted'')) svh = map Some cols"
  shows "add_weighted_turnout svh df n =
           Inr (map (\<lambda>i. float32 (get_weighted_sum (map (\<lambda>col. col ! i) cols))) [0..<n])"
proof -
  have "map (\<lambda>vote. case map_of df (vote @ ''_weighted'') of
                      None \<Rightarrow> Inl AnalysisException
                    | Some col \<Rightarrow> Inr col) svh
          = map (case_option (Inl AnalysisException) Inr)
              (map (\<lambda>vote. map_of df (vote @ ''_weighted'')) svh)"
    by simp
  also have "\<dots> = map Inr cols"
    unfolding assms by simp
  finally show ?thesis
    by (simp add: add_weighted_turnout_def sequence_err_map_Inr)
qed






section \<open>Normalization within the cohort\<close>

lemma cohort_scores_set:
  assumes "length cohort = length wt"
  shows "set (map snd (filter (\<lambda>(c', w'). c' = c) (zip cohort wt)))
           = {wt ! j | j. j < length wt \<and> cohort ! j = c}"
  using assms by (auto simp: set_zip image_iff)

lemma normalize_turnout_nth:
  assumes "length cohort = length wt" and "i < length wt"
  shows "normalize_turnout cohort wt ! i =
           (let max_to = Max {wt ! j | j. j < length wt \<and> cohort ! j = cohort ! i}
            in if max_to = 0 then None else Some (wt ! i / max_to))"
proof -
  have "normalize_turnout cohort wt ! i =
          sql_div (wt ! i)
            (Max (set (map snd (filter (\<lambda>(c', w'). c' = cohort ! i) (zip cohort wt)))))"
    using assms by (simp add: normalize_turnout_def Let_def del: set_map set_filter)
  then show ?thesis
    unfolding cohort_scores_set [OF assms(1)] by (simp add: sql_div_def Let_def)
qed




section \<open>The effective registration date\<close>







section \<open>The normalized score is a fraction\<close>

lemma clean_voting_record_range:
  "clean_voting_record lib fmt voted vote eff reg ed = Inr v
     \<Longrightarrow> v = None \<or> v = Some 0 \<or> v = Some 1"
  by (auto simp: clean_voting_record_def Let_def split: option.splits if_splits)

lemma cleaned_column_range:
  assumes "cleaned_column lib cfg vdf effs election election_date = Inr c"
  shows "(\<forall>v\<in>set c. v = None \<or> v = Some 0 \<or> v = Some 1)
         \<and> length c = min (length (rows vdf)) (length effs)"
proof -
  let ?f = "\<lambda>(r, eff).
               clean_voting_record lib (formats_reg_date cfg) (voted_values cfg)
                 (lookup_cell (columns vdf) r election) (Some eff)
                 (lookup_cell (columns vdf) r (reg_date_field cfg)) election_date"
  from assms have m: "map ?f (zip (rows vdf) effs) = map Inr c"
    unfolding cleaned_column_def by (rule sequence_err_Inr)
  from arg_cong [OF m, of length] have l: "length c = min (length (rows vdf)) (length effs)"
    by simp
  have "v = None \<or> v = Some 0 \<or> v = Some 1" if "v \<in> set c" for v
  proof -
    from that have "Inr v \<in> set (map ?f (zip (rows vdf) effs))"
      unfolding m by simp
    then obtain r eff where "?f (r, eff) = Inr v" by auto
    then show ?thesis by (auto dest: clean_voting_record_range)
  qed
  with l show ?thesis by blast
qed

lemma cleaned_columns_range:
  "cleaned_columns lib cfg vdf effs vhs = Inr cl \<Longrightarrow> (name, c) \<in> set cl
     \<Longrightarrow> (\<forall>v\<in>set c. v = None \<or> v = Some 0 \<or> v = Some 1)
         \<and> length c = min (length (rows vdf)) (length effs)"
proof (induction vhs arbitrary: cl)
  case Nil
  then show ?case by simp
next
  case (Cons p vhs)
  obtain election election_date where p: "p = (election, election_date)" by (cases p)
  from Cons.prems(1) p obtain c0 cs where
    c0: "cleaned_column lib cfg vdf effs election election_date = Inr c0"
    and cs: "cleaned_columns lib cfg vdf effs vhs = Inr cs"
    and cl: "cl = (election @ ''_cleaned'', c0) # cs"
    by (auto split: sum.splits)
  from Cons.prems(2) cl consider "c = c0" | "(name, c) \<in> set cs" by auto
  then show ?case
  proof cases
    case 1
    with cleaned_column_range [OF c0] show ?thesis by simp
  next
    case 2
    with Cons.IH [OF cs] show ?thesis by simp
  qed
qed

lemma norm_fac_unit_interval:
  assumes "\<forall>v\<in>set col. v = None \<or> v = Some 0 \<or> v = Some 1"
    and "norm_fac col = Some f"
  shows "0 \<le> f \<and> f \<le> 1"
proof -
  let ?ones = "length (filter (\<lambda>v. v = Some 1) col)"
  let ?nn = "length (filter (\<lambda>v. v \<noteq> None) col)"
  from assms(2) have ne: "filter (\<lambda>v. v \<noteq> None) col \<noteq> []"
    by (auto simp: norm_fac_def Let_def split: if_splits)
  then have ex: "\<exists>v\<in>set col. v \<noteq> None"
    by (simp add: filter_empty_conv)
  from norm_fac_turnout_rate [OF assms(1) ex] assms(2)
  have f: "f = real ?ones / real ?nn"
    by (simp add: turnout_rate_def)
  have "filter (\<lambda>v. v = Some 1) col = filter (\<lambda>v. v = Some 1) (filter (\<lambda>v. v \<noteq> None) col)"
    by (simp add: conj_commute cong: conj_cong)
  then have le: "?ones \<le> ?nn"
    by (metis length_filter_le)
  from ne have "0 < ?nn" by simp
  with le f show ?thesis by simp
qed

lemma weighted_column_nonneg:
  assumes "\<forall>v\<in>set col. v = None \<or> v = Some 0 \<or> v = Some 1"
    and "weighted_column col = Inr w"
  shows "(\<forall>v\<in>set w. v = None \<or> (\<exists>x. v = Some x \<and> 0 \<le> x)) \<and> length w = length col"
proof -
  from assms(2) obtain f where f: "norm_fac col = Some f"
    and w: "w = map (map_option (\<lambda>c. real_of_int c * (1 - f))) col"
    by (auto simp: weighted_column_def split: option.splits)
  from norm_fac_unit_interval [OF assms(1) f] have "f \<le> 1" by simp
  with assms(1) w show ?thesis by auto
qed

lemma add_weighted_vote_loop_nonneg:
  assumes "\<forall>(name, c) \<in> set cl. (\<forall>v\<in>set c. v = None \<or> v = Some 0 \<or> v = Some 1) \<and> length c = n"
  shows "add_weighted_vote_loop els cl df = Inr ws
     \<Longrightarrow> \<forall>(name, w) \<in> set df.
           (\<forall>v\<in>set w. v = None \<or> (\<exists>x. v = Some x \<and> 0 \<le> x)) \<and> length w = n
     \<Longrightarrow> \<forall>(name, w) \<in> set ws.
           (\<forall>v\<in>set w. v = None \<or> (\<exists>x. v = Some x \<and> 0 \<le> x)) \<and> length w = n"
proof (induction els arbitrary: df)
  case Nil
  then show ?case by simp
next
  case (Cons election els)
  from Cons.prems(1) obtain col w0 where
    col: "map_of cl election = Some col"
    and w0: "weighted_column col = Inr w0"
    and rest: "add_weighted_vote_loop els cl (with_column (weighted_col_name election) w0 df)
                 = Inr ws"
    by (auto split: option.splits sum.splits)
  from col have "(election, col) \<in> set cl" by (rule map_of_SomeD)
  with assms have c: "\<forall>v\<in>set col. v = None \<or> v = Some 0 \<or> v = Some 1" "length col = n"
    by auto
  from weighted_column_nonneg [OF c(1) w0] c(2)
  have p0: "(\<forall>v\<in>set w0. v = None \<or> (\<exists>x. v = Some x \<and> 0 \<le> x)) \<and> length w0 = n"
    by simp
  have "\<forall>(name, w) \<in> set (with_column (weighted_col_name election) w0 df).
           (\<forall>v\<in>set w. v = None \<or> (\<exists>x. v = Some x \<and> 0 \<le> x)) \<and> length w = n"
    using with_column_set [of "weighted_col_name election" w0 df] p0 Cons.prems(2)
    by blast
  with Cons.IH [OF rest] show ?case .
qed

lemma get_weighted_sum_nonneg:
  assumes "\<forall>v\<in>set arr. v = None \<or> (\<exists>x. v = Some x \<and> 0 \<le> x)"
  shows "0 \<le> get_weighted_sum arr"
  unfolding get_weighted_sum_as_zero
  using assms by (intro sum_list_nonneg) (auto split: option.splits)

lemma add_weighted_turnout_nonneg:
  assumes "add_weighted_turnout svh ws n = Inr wt"
    and "\<forall>(name, w) \<in> set ws.
           (\<forall>v\<in>set w. v = None \<or> (\<exists>x. v = Some x \<and> 0 \<le> x)) \<and> length w = n"
    and "i < n"
  shows "0 \<le> wt ! i \<and> length wt = n"
proof -
  let ?f = "\<lambda>vote. case map_of ws (vote @ ''_weighted'') of
                      None \<Rightarrow> Inl AnalysisException
                    | Some col \<Rightarrow> Inr col"
  from assms(1) obtain cols where
    cols: "sequence_err (map ?f svh) = Inr cols"
    and wt: "wt = map (\<lambda>i. float32 (get_weighted_sum (map (\<lambda>col. col ! i) cols))) [0..<n]"
    by (auto simp: add_weighted_turnout_def split: sum.splits)
  from sequence_err_Inr [OF cols] have m: "map ?f svh = map Inr cols" .
  have "0 \<le> get_weighted_sum (map (\<lambda>col. col ! i) cols)"
  proof (rule get_weighted_sum_nonneg, rule ballI)
    fix v assume "v \<in> set (map (\<lambda>col. col ! i) cols)"
    then obtain col where c: "col \<in> set cols" "v = col ! i" by auto
    from c(1) have "Inr col \<in> set (map ?f svh)"
      unfolding m by simp
    then obtain vote where "?f vote = Inr col" by auto
    then have "map_of ws (vote @ ''_weighted'') = Some col"
      by (auto split: option.splits)
    then have "(vote @ ''_weighted'', col) \<in> set ws" by (rule map_of_SomeD)
    with assms(2) have w: "\<forall>v\<in>set col. v = None \<or> (\<exists>x. v = Some x \<and> 0 \<le> x)" "length col = n"
      by auto
    from w(2) assms(3) have "col ! i \<in> set col" by simp
    with w(1) c(2) show "v = None \<or> (\<exists>x. v = Some x \<and> 0 \<le> x)" by simp
  qed
  then have "0 \<le> float32 (get_weighted_sum (map (\<lambda>col. col ! i) cols))"
    by (rule float32_nonneg)
  with assms(3) show ?thesis by (simp add: wt)
qed

text \<open>
  C7. Whenever the pipeline produces its result, every voter whose cohort has a strictly
  positive maximum raw score has a normalized turnout that is not null and lies between
  0 and 1.
\<close>

theorem normalized_turnout_unit_interval:
  assumes "compute_normalized_turnout lib cfg vdf = Inr out"
    and "i < length (rows vdf)"
    and "0 < Max {weighted_turnout out ! j | j.
                   j < length (rows vdf) \<and> effective_reg_date out ! j = effective_reg_date out ! i}"
  shows "\<exists>x. normalized_turnout out ! i = Some x \<and> 0 \<le> x \<and> x \<le> 1"
proof -
  let ?n = "length (rows vdf)"
  from assms(1) obtain svh effs cl ws wt where
    effs: "add_effective_reg_date lib cfg svh vdf = Inr effs"
    and cl: "cleaned_columns lib cfg vdf effs (vote_histories cfg) = Inr cl"
    and ws: "add_weighted_vote svh cl = Inr ws"
    and wt: "add_weighted_turnout svh ws ?n = Inr wt"
    and out: "out = \<lparr> effective_reg_date = effs, cleaned = cl, weighted = ws,
                 weighted_turnout = wt,
                 normalized_turnout = normalize_turnout effs wt \<rparr>"
    by (auto simp: compute_normalized_turnout_def bind_err_def split: sum.splits if_splits)
  have le: "length effs = ?n"
    using sequence_err_length [OF effs [unfolded add_effective_reg_date_def]] by simp
  have c: "\<forall>(name, c) \<in> set cl.
             (\<forall>v\<in>set c. v = None \<or> v = Some 0 \<or> v = Some 1) \<and> length c = ?n"
    using cleaned_columns_range [OF cl] le by auto
  have w: "\<forall>(name, w) \<in> set ws.
             (\<forall>v\<in>set w. v = None \<or> (\<exists>x. v = Some x \<and> 0 \<le> x)) \<and> length w = ?n"
    using add_weighted_vote_loop_nonneg [OF c ws [unfolded add_weighted_vote_def]] by simp
  from add_weighted_turnout_nonneg [OF wt w assms(2)]
  have nonneg: "0 \<le> wt ! i" and lw: "length wt = ?n"
    by simp_all
  define M where "M = Max {wt ! j | j. j < length wt \<and> effs ! j = effs ! i}"
  from assms(3) have pos: "0 < M"
    by (simp add: M_def out lw)
  have "finite {wt ! j | j. j < length wt \<and> effs ! j = effs ! i}"
    by simp
  moreover have "wt ! i \<in> {wt ! j | j. j < length wt \<and> effs ! j = effs ! i}"
    using assms(2) lw by auto
  ultimately have ub: "wt ! i \<le> M"
    unfolding M_def by (rule Max_ge)
  have "normalized_turnout out ! i = Some (wt ! i / M)"
    using normalize_turnout_nth [of effs wt i] le lw assms(2) pos
    by (simp add: out M_def Let_def)
  moreover have "0 \<le> wt ! i / M" "wt ! i / M \<le> 1"
    using nonneg ub pos by simp_all
  ultimately show ?thesis by blast
qed

text \<open>
  The sample voter file: preprocessing keeps the five voters and derives their years of
  birth, and the pipeline scores them, stage by stage.
\<close>

lemma sample_preprocess:
  "preprocess_vf (py_lib (2026, 11, 4)) sample_cfg sample_df
     = Inr (sample_vdf, [Inr ''1980'', Inr ''2008'', Inr ''2008'', Inr ''1975'', Inr ''1990''])"
  by code_simp

lemma sample_sorted:
  "sort_vote_histories (py_lib (2026, 11, 4)) (vote_histories sample_cfg)
     = Inr [''G16'', ''G18'', ''G20'']"
  by code_simp

lemma sample_effective:
  "add_effective_reg_date (py_lib (2026, 11, 4)) sample_cfg [''G16'', ''G18'', ''G20''] sample_vdf
     = Inr (effective_reg_date sample_scored)"
  by code_simp

lemma sample_cleaned_columns:
  "cleaned_columns (py_lib (2026, 11, 4)) sample_cfg sample_vdf
       (effective_reg_date sample_scored) (vote_histories sample_cfg)
     = Inr (cleaned sample_scored)"
  by code_simp

lemma sample_weighted_vote:
  "add_weighted_vote [''G16'', ''G18'', ''G20''] (cleaned sample_scored)
     = Inr (weighted sample_scored)"
  by code_simp

lemma sample_scored_columns:
  "map (\<lambda>vote. map_of (weighted sample_scored) (vote @ ''_weighted'')) [''G16'', ''G18'', ''G20'']
     = map Some [[None, Some 0, None, None, None],
                 [Some (2 / 5), Some (2 / 5), Some 0, Some (2 / 5), Some 0],
                 [Some 0, Some (2 / 5), Some (2 / 5), Some (2 / 5), Some 0]]"
  by (simp add: sample_scored_def)

lemma sample_raw_score:
  "add_weighted_turnout [''G16'', ''G18'', ''G20''] (weighted sample_scored) 5
     = Inr (weighted_turnout sample_scored)"
  unfolding add_weighted_turnout_columns [OF sample_scored_columns]
  by (simp add: get_weighted_sum_as_zero sample_scored_def upt_rec [of 0] upt_rec [of 1]
      upt_rec [of 2] upt_rec [of 3] upt_rec [of 4] numeral_eq_Suc
      float32_zero float32_two_fifths float32_four_fifths)

lemma sample_normalized:
  "normalize_turnout (effective_reg_date sample_scored) (weighted_turnout sample_scored)
     = normalized_turnout sample_scored"
  by code_simp

lemma sample_run:
  "compute_normalized_turnout (py_lib (2026, 11, 4)) sample_cfg sample_vdf = Inr sample_scored"
proof -
  have n: "length (rows sample_vdf) = 5"
    by (simp add: sample_vdf_def)
  have v: "vote_histories sample_cfg \<noteq> []"
    by (simp add: sample_cfg_def)
  have "compute_normalized_turnout (py_lib (2026, 11, 4)) sample_cfg sample_vdf =
          Inr \<lparr> effective_reg_date = effective_reg_date sample_scored,
                cleaned = cleaned sample_scored, weighted = weighted sample_scored,
                weighted_turnout = weighted_turnout sample_scored,
                normalized_turnout = normalized_turnout sample_scored \<rparr>"
    by (simp add: compute_normalized_turnout_def bind_err_def n v sample_sorted
        sample_effective sample_cleaned_columns sample_weighted_vote sample_raw_score
        sample_normalized)
  then show ?thesis by simp
qed

lemma sample_run_cohort:
  "{weighted_turnout sample_scored ! j | j.
      j < length (rows sample_vdf)
      \<and> effective_reg_date sample_scored ! j = effective_reg_date sample_scored ! 0}
     = {13421773 / 33554432, 13421773 / 16777216, 0}"
proof -
  have n: "length (rows sample_vdf) = length (weighted_turnout sample_scored)"
    by (simp add: sample_vdf_def sample_scored_def)
  have l: "length (effective_reg_date sample_scored) = length (weighted_turnout sample_scored)"
    by (simp add: sample_scored_def)
  show ?thesis
    unfolding n cohort_scores_set [OF l, symmetric]
    by (simp add: sample_scored_def)
qed

theorem normalized_turnout_unit_interval_witness:
  "compute_normalized_turnout (py_lib (2026, 11, 4)) sample_cfg sample_vdf = Inr sample_scored
   \<and> 0 < length (rows sample_vdf)
   \<and> 0 < Max {weighted_turnout sample_scored ! j | j.
               j < length (rows sample_vdf)
               \<and> effective_reg_date sample_scored ! j = effective_reg_date sample_scored ! 0}
   \<and> (\<exists>x. normalized_turnout sample_scored ! 0 = Some x \<and> 0 \<le> x \<and> x \<le> 1)
   \<and> normalized_turnout sample_scored ! 0 = Some (1 / 2)"
proof -
  have h2: "0 < length (rows sample_vdf)"
    by (simp add: sample_vdf_def)
  have h3: "0 < Max {weighted_turnout sample_scored ! j | j.
               j < length (rows sample_vdf)
               \<and> effective_reg_date sample_scored ! j = effective_reg_date sample_scored ! 0}"
    unfolding sample_run_cohort by simp
  have v: "normalized_turnout sample_scored ! 0 = Some (1 / 2)"
    by (simp add: sample_scored_def)
  from sample_run h2 h3 v normalized_turnout_unit_interval [OF sample_run h2 h3]
  show ?thesis by blast
qed

end
